theory Spec2Isabelle
  imports Main "HOL-Library.Sublist"
begin

section \<open>Python strings\<close>

text \<open>
  A Python \<open>str\<close> is a sequence of Unicode code points, and \<open>len\<close> counts code points.
  It is modelled as a list of integers, one per code point. A literal of the source is
  written \<open>str ''...''\<close>; the few non-ASCII characters of the source are given by their
  code point.
\<close>

type_synonym pystr = "int list"

definition str :: "string \<Rightarrow> pystr" where
  "str s = map of_char s"

text \<open>\<open>str.isspace\<close> of one character: the code points Python treats as whitespace.\<close>

definition py_isspace :: "int \<Rightarrow> bool" where
  "py_isspace c =
     ((9 \<le> c \<and> c \<le> 13) \<or> (28 \<le> c \<and> c \<le> 32) \<or> c = 133 \<or> c = 160 \<or> c = 5760
      \<or> (8192 \<le> c \<and> c \<le> 8202) \<or> c = 8232 \<or> c = 8233 \<or> c = 8239 \<or> c = 8287
      \<or> c = 12288)"

text \<open>
  The case tables of Unicode belong to the Python runtime, not to the repository, so
  \<open>str.lower\<close> is a parameter, \<open>lower\<close>, of every function of the model that calls it.
  The letters of ASCII are modelled here: they say what \<open>lower\<close> does on an ASCII string,
  and they give \<open>str.title\<close>, which the source applies to its own ASCII keywords only.
\<close>

definition is_upper :: "int \<Rightarrow> bool" where
  "is_upper c = (65 \<le> c \<and> c \<le> 90)"

definition is_lower :: "int \<Rightarrow> bool" where
  "is_lower c = (97 \<le> c \<and> c \<le> 122)"

definition lower_char :: "int \<Rightarrow> int" where
  "lower_char c = (if is_upper c then c + 32 else c)"

definition upper_char :: "int \<Rightarrow> int" where
  "upper_char c = (if is_lower c then c - 32 else c)"

definition ascii_lower :: "pystr \<Rightarrow> pystr" where
  "ascii_lower s = map lower_char s"

text \<open>
  What is used of \<open>str.lower\<close>, both true of Python: a string of ASCII characters is
  lower-cased letter by letter, and only the empty string has an empty lower-case form.
\<close>

definition str_lower_laws :: "(pystr \<Rightarrow> pystr) \<Rightarrow> bool" where
  "str_lower_laws lower \<longleftrightarrow>
     (\<forall>s. (\<forall>c \<in> set s. 0 \<le> c \<and> c < 128) \<longrightarrow> lower s = ascii_lower s)
     \<and> (\<forall>s. lower s = [] \<longleftrightarrow> s = [])"

text \<open>
  A lower-casing for the examples: the ASCII letters, LATIN CAPITAL LETTER E WITH ACUTE
  (201, to 233) and KELVIN SIGN (8490, to the letter k), as \<open>str.lower\<close> maps them.
\<close>

definition example_lower :: "pystr \<Rightarrow> pystr" where
  "example_lower s =
     map (\<lambda>c. if c = 8490 then 107 else if c = 201 then 233 else lower_char c) s"

text \<open>\<open>s.strip()\<close>: leading and trailing whitespace removed.\<close>

definition py_strip :: "pystr \<Rightarrow> pystr" where
  "py_strip s = rev (dropWhile py_isspace (rev (dropWhile py_isspace s)))"

text \<open>\<open>needle in hay\<close> on strings: \<open>needle\<close> occurs as a contiguous substring.\<close>

definition py_in :: "pystr \<Rightarrow> pystr \<Rightarrow> bool" where
  "py_in needle hay = sublist needle hay"

text \<open>
  \<open>s.title()\<close>: a letter that does not follow a letter is upper-cased, a letter that
  follows a letter is lower-cased; the flag says whether the previous character was a
  letter.
\<close>

fun title_from :: "bool \<Rightarrow> pystr \<Rightarrow> pystr" where
  "title_from prev [] = []"
| "title_from prev (c # cs) =
     (if is_lower c then (if prev then c else upper_char c) # title_from True cs
      else if is_upper c then (if prev then lower_char c else c) # title_from True cs
      else c # title_from False cs)"

definition py_title :: "pystr \<Rightarrow> pystr" where
  "py_title s = title_from False s"

section \<open>JSON values and Python operations on them\<close>

text \<open>
  What \<open>json.loads\<close> returns. A dict is an association list with the keys in insertion
  order; numbers are kept as integers, since the code only asks whether a value is a
  string, a list or a dict.
\<close>

datatype json =
    JNull
  | JBool bool
  | JNum int
  | JStr pystr
  | JArr "json list"
  | JObj "(pystr \<times> json) list"

datatype py_error = AttributeError | TypeError | ConnectionError | JSONDecodeError

text \<open>\<open>d.get(key, default)\<close>: only a dict has \<open>get\<close>.\<close>

fun py_get :: "json \<Rightarrow> pystr \<Rightarrow> json \<Rightarrow> py_error + json" where
  "py_get (JObj kvs) k d = Inr (case map_of kvs k of None \<Rightarrow> d | Some v \<Rightarrow> v)"
| "py_get _ k d = Inl AttributeError"

text \<open>
  \<open>for x in v\<close>: a list gives its items, a string its characters, a dict its keys;
  nothing else is iterable.
\<close>

fun py_iter :: "json \<Rightarrow> py_error + json list" where
  "py_iter (JArr xs) = Inr xs"
| "py_iter (JStr s) = Inr (map (\<lambda>c. JStr [c]) s)"
| "py_iter (JObj kvs) = Inr (map (\<lambda>kv. JStr (fst kv)) kvs)"
| "py_iter _ = Inl TypeError"

text \<open>Truth value of a Python object.\<close>

fun truthy :: "json \<Rightarrow> bool" where
  "truthy JNull = False"
| "truthy (JBool b) = b"
| "truthy (JNum n) = (n \<noteq> 0)"
| "truthy (JStr s) = (s \<noteq> [])"
| "truthy (JArr xs) = (xs \<noteq> [])"
| "truthy (JObj kvs) = (kvs \<noteq> [])"

section \<open>The inference backend\<close>

text \<open>
  The outcome of \<open>ollama.list()\<close>, \<open>ollama.chat(...)\<close> and \<open>json.loads\<close> on the reply:
  the service cannot be reached (the call raises), the reply is not parseable JSON
  (\<open>json.loads\<close> raises), or the reply parses to a JSON value.
\<close>

datatype ollama_backend = Unreachable | Malformed | Responds json

section \<open>resume_parser.py\<close>

text \<open>
  The uploaded file as \<open>PyPDF2\<close> sees it: reading raises, or there is a list of page
  texts (the empty text for a page whose \<open>extract_text()\<close> returns nothing).
\<close>

datatype pdf_file = Unreadable | Pages "pystr list"

fun extract_text_from_pdf :: "pdf_file \<Rightarrow> pystr" where
  "extract_text_from_pdf Unreadable = []"
| "extract_text_from_pdf (Pages ps) =
     py_strip (foldl (\<lambda>text page_text.
        if page_text \<noteq> [] then text @ page_text @ [10] else text) [] ps)"

text \<open>
  The loop of \<open>extract_skills_with_ollama\<close> that removes duplicates: \<open>seen\<close> holds the
  lower-cased skills met so far, \<open>unique_skills\<close> the result so far. A skill that is not a
  string has no \<open>strip\<close>.
\<close>

fun unique_loop :: "(pystr \<Rightarrow> pystr) \<Rightarrow> json list \<Rightarrow> pystr set \<Rightarrow> pystr list \<Rightarrow> py_error + pystr list" where
  "unique_loop lower [] seen unique_skills = Inr unique_skills"
| "unique_loop lower (JStr skill # rest) seen unique_skills =
     (let skill_clean = py_strip skill;
          skill_lower = lower skill_clean
      in if skill_lower \<noteq> [] \<and> skill_lower \<notin> seen
         then unique_loop lower rest (insert skill_lower seen) (unique_skills @ [skill_clean])
         else unique_loop lower rest seen unique_skills)"
| "unique_loop lower (_ # rest) seen unique_skills = Inl AttributeError"

text \<open>The body of the \<open>try\<close> block: every exception is a value.\<close>

definition ollama_try :: "(pystr \<Rightarrow> pystr) \<Rightarrow> ollama_backend \<Rightarrow> py_error + pystr list" where
  "ollama_try lower backend =
     (case backend of
        Unreachable \<Rightarrow> Inl ConnectionError
      | Malformed \<Rightarrow> Inl JSONDecodeError
      | Responds data \<Rightarrow>
          (case py_get data (str ''skills'') (JArr []) of
             Inl e \<Rightarrow> Inl e
           | Inr skills \<Rightarrow>
               (case py_iter skills of
                  Inl e \<Rightarrow> Inl e
                | Inr items \<Rightarrow> unique_loop lower items {} [])))"

definition extract_skills_with_ollama :: "(pystr \<Rightarrow> pystr) \<Rightarrow> pystr \<Rightarrow> ollama_backend \<Rightarrow> pystr list" where
  "extract_skills_with_ollama lower resume_text backend =
     (if resume_text = [] \<or> length (py_strip resume_text) < 50 then []
      else case ollama_try lower backend of Inl e \<Rightarrow> [] | Inr unique_skills \<Rightarrow> unique_skills)"

definition common_tech :: "pystr list" where
  "common_tech = map str
     [''python'', ''java'', ''c++'', ''go'', ''golang'', ''rust'', ''javascript'', ''typescript'',
      ''node.js'', ''c#'', ''ruby'', ''php'', ''swift'', ''kotlin'', ''scala'',
      ''data structures'', ''algorithms'', ''big o'', ''dynamic programming'',
      ''django'', ''flask'', ''fastapi'', ''spring boot'', ''express.js'', ''nest.js'',
      ''react'', ''vue'', ''angular'', ''svelte'', ''next.js'', ''nuxt.js'',
      ''rest api'', ''graphql'', ''grpc'', ''websockets'',
      ''postgresql'', ''mysql'', ''mongodb'', ''redis'', ''cassandra'', ''dynamodb'',
      ''elasticsearch'', ''neo4j'', ''sqlite'',
      ''aws'', ''gcp'', ''azure'', ''ec2'', ''lambda'', ''s3'', ''kubernetes'', ''docker'',
      ''git'', ''jenkins'', ''gitlab ci'', ''github actions'', ''terraform'', ''ansible'',
      ''pytest'', ''jest'', ''selenium'', ''cypress'', ''postman'',
      ''machine learning'', ''deep learning'', ''tensorflow'', ''pytorch'', ''scikit-learn'',
      ''nlp'', ''computer vision'', ''langchain'', ''huggingface'',
      ''kafka'', ''airflow'', ''spark'', ''hadoop'', ''etl'',
      ''linux'', ''bash'', ''agile'', ''scrum'', ''oauth'', ''jwt'', ''microservices'']"

text \<open>The first loop of \<open>extract_skills_fallback\<close>: the title-cased keywords found.\<close>

fun found_loop :: "pystr list \<Rightarrow> pystr \<Rightarrow> pystr list \<Rightarrow> pystr list" where
  "found_loop [] resume_lower found_skills = found_skills"
| "found_loop (skill # rest) resume_lower found_skills =
     (if py_in skill resume_lower
      then found_loop rest resume_lower (found_skills @ [py_title skill])
      else found_loop rest resume_lower found_skills)"

text \<open>The second loop: duplicates removed, the first occurrence kept.\<close>

fun dedupe_loop :: "(pystr \<Rightarrow> pystr) \<Rightarrow> pystr list \<Rightarrow> pystr set \<Rightarrow> pystr list \<Rightarrow> pystr list" where
  "dedupe_loop lower [] seen unique_skills = unique_skills"
| "dedupe_loop lower (skill # rest) seen unique_skills =
     (if lower skill \<notin> seen
      then dedupe_loop lower rest (insert (lower skill) seen) (unique_skills @ [skill])
      else dedupe_loop lower rest seen unique_skills)"

definition extract_skills_fallback :: "(pystr \<Rightarrow> pystr) \<Rightarrow> pystr \<Rightarrow> pystr list" where
  "extract_skills_fallback lower resume_text =
     dedupe_loop lower (found_loop common_tech (lower resume_text) []) {} []"

text \<open>
  The diagnostic messages of \<open>parse_resume\<close>, one constructor per message of the source
  (the number is \<open>len(skills)\<close>):
  \<^item> \<open>FailedToExtractText\<close>: "Failed to extract text from PDF";
  \<^item> \<open>ResumeTextTooShort\<close>: "Resume text too short - please upload a complete resume";
  \<^item> \<open>ExtractedUsingAI n\<close>: "Extracted n skills using AI";
  \<^item> \<open>OllamaUnavailableFallback n\<close>: "Ollama unavailable - extracted n skills using
    fallback method";
  \<^item> \<open>OllamaUnavailableNoSkills\<close>: "Ollama unavailable and no skills found in fallback";
  \<^item> \<open>ExtractedSkills n\<close>: "Extracted n skills";
  \<^item> \<open>NoTechnicalSkills\<close>: "No technical skills found in resume".
\<close>

datatype message =
    FailedToExtractText
  | ResumeTextTooShort
  | ExtractedUsingAI nat
  | OllamaUnavailableFallback nat
  | OllamaUnavailableNoSkills
  | ExtractedSkills nat
  | NoTechnicalSkills

text \<open>The extractor calls \<open>parse_resume\<close> makes, in order.\<close>

datatype extractor_call = CallOllama | CallFallback

text \<open>
  \<open>parse_resume\<close> returns the tuple \<open>(success, skills, message)\<close>; the model returns with
  it the list of extractor calls made.
\<close>

type_synonym parse_result = "(bool \<times> pystr list \<times> message) \<times> extractor_call list"

definition parse_resume :: "(pystr \<Rightarrow> pystr) \<Rightarrow> pdf_file \<Rightarrow> bool \<Rightarrow> ollama_backend \<Rightarrow> parse_result" where
  "parse_resume lower pdf_file use_ollama backend =
     (let resume_text = extract_text_from_pdf pdf_file
      in if resume_text = [] then ((False, [], FailedToExtractText), [])
         else if length resume_text < 100 then ((False, [], ResumeTextTooShort), [])
         else if use_ollama then
           (let skills = extract_skills_with_ollama lower resume_text backend
            in if skills \<noteq> []
               then ((True, skills, ExtractedUsingAI (length skills)), [CallOllama])
               else (let skills = extract_skills_fallback lower resume_text
                     in if skills \<noteq> []
                        then ((True, skills, OllamaUnavailableFallback (length skills)),
                              [CallOllama, CallFallback])
                        else ((False, [], OllamaUnavailableNoSkills),
                              [CallOllama, CallFallback])))
         else
           (let skills = extract_skills_fallback lower resume_text
            in if skills \<noteq> []
               then ((True, skills, ExtractedSkills (length skills)), [CallFallback])
               else ((False, [], NoTechnicalSkills), [CallFallback])))"

text \<open>
  The claim about the order of the skills speaks of the order of first occurrence. This
  is that notion written down on its own, to compare the loop with: the head is kept, and
  every later entry equal to it under lower-casing is dropped.
\<close>

fun first_occurrences :: "(pystr \<Rightarrow> pystr) \<Rightarrow> pystr list \<Rightarrow> pystr list" where
  "first_occurrences lower [] = []"
| "first_occurrences lower (x # xs) =
     x # filter (\<lambda>y. lower y \<noteq> lower x) (first_occurrences lower xs)"

section \<open>The job_openings table\<close>

text \<open>
  One row of \<open>job_openings\<close>, with the columns the scripts read and write. A column that
  was never written holds \<open>JNull\<close> (SQL \<open>NULL\<close>); \<open>search_query\<close> is absent for a
  row the generic scraper inserts.
\<close>

record job_opening =
  job_id :: nat
  search_query :: "pystr option"
  job_url :: pystr
  job_title :: pystr
  raw_description :: pystr
  company :: json
  location_scraped :: json
  is_remote :: json
  job_type :: json
  seniority :: json
  required_skills :: json
  is_extracted :: bool

type_synonym job_table = "job_opening list"

text \<open>A \<open>mysql.connector.Error\<close> with its \<open>errno\<close>; 1062 is the duplicate-entry error.\<close>

datatype db_error = DbError nat

definition new_id :: "job_table \<Rightarrow> nat" where
  "new_id tbl = Suc (foldr max (map job_id tbl) 0)"

text \<open>
  Modelled from the spec: the MySQL server and the schema of \<open>job_openings\<close> are not in
  the repository. The spec gives the table as \<open>job_openings(id, job_title, job_url UNIQUE,
  ...)\<close>: an \<open>INSERT\<close> whose \<open>job_url\<close> is already in the table is rejected with
  errno 1062, any other \<open>INSERT\<close> appends the row under a fresh id. \<open>fault\<close> is a failure
  of the server or the connection during the statement, with its errno.
\<close>

definition db_insert :: "nat option \<Rightarrow> job_table \<Rightarrow> job_opening \<Rightarrow> db_error + job_table" where
  "db_insert fault tbl row =
     (case fault of
        Some errno \<Rightarrow> Inl (DbError errno)
      | None \<Rightarrow>
          if job_url row \<in> set (map job_url tbl) then Inl (DbError 1062)
          else Inr (tbl @ [row\<lparr>job_id := new_id tbl\<rparr>]))"

text \<open>
  Modelled from the spec: \<open>UPDATE job_openings SET ... WHERE id = ...\<close> rewrites the rows
  with that id, unless the statement fails.
\<close>

definition db_update ::
  "nat option \<Rightarrow> job_table \<Rightarrow> nat \<Rightarrow> (job_opening \<Rightarrow> job_opening) \<Rightarrow> db_error + job_table" where
  "db_update fault tbl i f =
     (case fault of
        Some errno \<Rightarrow> Inl (DbError errno)
      | None \<Rightarrow> Inr (map (\<lambda>row. if job_id row = i then f row else row) tbl))"

section \<open>extractor.py\<close>

text \<open>
  \<open>extract_data\<close>: the parsed reply, or \<open>None\<close> when anything in the \<open>try\<close> block
  raises. The backend is a function of the text sent to it.
\<close>

definition extract_data :: "(pystr \<Rightarrow> ollama_backend) \<Rightarrow> pystr \<Rightarrow> json" where
  "extract_data llm raw_text =
     (case llm raw_text of Responds data_dict \<Rightarrow> data_dict | _ \<Rightarrow> JNull)"

text \<open>
  What \<open>cursor.execute\<close> accepts as a parameter of a statement: \<open>None\<close>, a boolean, a
  number or a string. The connector cannot convert a list or a dict; \<open>execute\<close> then
  raises a \<open>mysql.connector.Error\<close>.
\<close>

fun convertible :: "json \<Rightarrow> bool" where
  "convertible (JArr xs) = False"
| "convertible (JObj kvs) = False"
| "convertible v = True"

text \<open>
  The body of the \<open>for\<close> loop of \<open>main\<close> for one job. The \<open>try\<close> block is not inside
  \<open>if structured_data:\<close>, so it runs for every job, and its handler catches
  \<open>mysql.connector.Error\<close> only: the \<open>AttributeError\<close> of \<open>.get\<close> on a value that is not
  a dict leaves the loop (\<open>Inl\<close>). The skills are passed as the string \<open>json.dumps\<close>
  makes of them and \<open>is_remote\<close> as 0 or 1; the four other fields are passed as the reply
  has them, so the \<open>UPDATE\<close> raises when one of them is a list or a dict. \<open>faults i\<close> is
  the error, if any, that the server raises for the \<open>UPDATE\<close> of job \<open>i\<close>. A failed
  \<open>UPDATE\<close> is rolled back and the table is as before.
\<close>

definition update_job ::
  "(pystr \<Rightarrow> ollama_backend) \<Rightarrow> (nat \<Rightarrow> nat option) \<Rightarrow> job_opening \<Rightarrow> job_table
     \<Rightarrow> py_error + job_table" where
  "update_job llm faults job tbl =
     (let structured_data = extract_data llm (raw_description job)
      in case py_get structured_data (str ''required_skills'') (JArr []) of
           Inl e \<Rightarrow> Inl e
         | Inr skills_list \<Rightarrow>
             (case py_get structured_data (str ''is_remote'') (JBool False) of
                Inl e \<Rightarrow> Inl e
              | Inr remote \<Rightarrow>
                  (case (py_get structured_data (str ''company'') (JStr (str ''Not specified'')),
                         py_get structured_data (str ''location_scraped'') (JStr (str ''Not specified'')),
                         py_get structured_data (str ''job_type'') (JStr (str ''Full-time'')),
                         py_get structured_data (str ''seniority'') (JStr (str ''Not specified''))) of
                     (Inr c, Inr l, Inr t, Inr s) \<Rightarrow>
                       (let is_remote_int = (if truthy remote then 1 else 0)
                        in if \<not> (convertible c \<and> convertible l \<and> convertible t \<and> convertible s)
                           then Inr tbl
                           else case db_update (faults (job_id job)) tbl (job_id job)
                                  (\<lambda>row. row\<lparr>company := c, location_scraped := l,
                                     is_remote := JNum is_remote_int, job_type := t,
                                     seniority := s, required_skills := skills_list,
                                     is_extracted := True\<rparr>) of
                             Inl err \<Rightarrow> Inr tbl
                           | Inr tbl' \<Rightarrow> Inr tbl')
                   | _ \<Rightarrow> Inl AttributeError)))"

fun process_jobs ::
  "(pystr \<Rightarrow> ollama_backend) \<Rightarrow> (nat \<Rightarrow> nat option) \<Rightarrow> job_opening list \<Rightarrow> job_table
     \<Rightarrow> job_table \<times> py_error option" where
  "process_jobs llm faults [] tbl = (tbl, None)"
| "process_jobs llm faults (job # rest) tbl =
     (case update_job llm faults job tbl of
        Inl e \<Rightarrow> (tbl, Some e)
      | Inr tbl' \<Rightarrow> process_jobs llm faults rest tbl')"

text \<open>
  \<open>main\<close>: the rows not yet extracted are processed in turn. The result is the table
  afterwards and the exception that ended \<open>main\<close>, if one did.
\<close>

definition main :: "(pystr \<Rightarrow> ollama_backend) \<Rightarrow> (nat \<Rightarrow> nat option) \<Rightarrow> job_table
    \<Rightarrow> job_table \<times> py_error option" where
  "main llm faults tbl =
     (let jobs_to_process = filter (\<lambda>row. \<not> is_extracted row) tbl
      in if jobs_to_process = [] then (tbl, None)
         else process_jobs llm faults jobs_to_process tbl)"

section \<open>Saving a posting\<close>

text \<open>
  The row an \<open>INSERT\<close> of a scraper writes. job_agent.py writes \<open>is_extracted = FALSE\<close>
  and no \<open>search_query\<close>; the two other scrapers write \<open>search_query\<close> and leave
  \<open>is_extracted\<close> to the column default, taken to be \<open>FALSE\<close> (the spec: a new posting is
  pending extraction). The id is given by the table.
\<close>

definition pending_row :: "pystr option \<Rightarrow> pystr \<Rightarrow> pystr \<Rightarrow> pystr \<Rightarrow> job_opening" where
  "pending_row query url title description =
     \<lparr>job_id = 0, search_query = query, job_url = url, job_title = title,
      raw_description = description, company = JNull, location_scraped = JNull,
      is_remote = JNull, job_type = JNull, seniority = JNull, required_skills = JNull,
      is_extracted = False\<rparr>"

text \<open>
  \<open>RemoteJobScraper._save_job_to_db\<close> of job_agent.py: \<open>True\<close> after a commit, \<open>False\<close>
  on the duplicate-entry error and \<open>False\<close> (after a rollback) on any other error.
\<close>

definition save_job_to_db ::
  "nat option \<Rightarrow> job_table \<Rightarrow> pystr \<Rightarrow> pystr \<Rightarrow> pystr \<Rightarrow> pystr \<Rightarrow> bool \<times> job_table" where
  "save_job_to_db fault tbl search_term url title description =
     (case db_insert fault tbl (pending_row None url title description) of
        Inr tbl' \<Rightarrow> (True, tbl')
      | Inl (DbError errno) \<Rightarrow> if errno = 1062 then (False, tbl) else (False, tbl))"

text \<open>
  The \<open>INSERT\<close> block of \<open>scrape_yc\<close> and of \<open>scrape_wellfound\<close>: it returns nothing and
  prints one of "Successfully saved to database", "Duplicate entry - skipping" and
  "Database error: ...".
\<close>

datatype insert_report = SuccessfullySaved | DuplicateSkipping | DatabaseError nat

definition scraper_insert ::
  "pystr \<Rightarrow> nat option \<Rightarrow> job_table \<Rightarrow> pystr \<Rightarrow> pystr \<Rightarrow> pystr \<Rightarrow> insert_report \<times> job_table" where
  "scraper_insert source fault tbl url title clean_text =
     (case db_insert fault tbl (pending_row (Some source) url title clean_text) of
        Inr tbl' \<Rightarrow> (SuccessfullySaved, tbl')
      | Inl (DbError errno) \<Rightarrow>
          if errno = 1062 then (DuplicateSkipping, tbl) else (DatabaseError errno, tbl))"

definition yc_insert ::
  "nat option \<Rightarrow> job_table \<Rightarrow> pystr \<Rightarrow> pystr \<Rightarrow> pystr \<Rightarrow> insert_report \<times> job_table" where
  "yc_insert = scraper_insert (str ''YC Scraper'')"

definition wellfound_insert ::
  "nat option \<Rightarrow> job_table \<Rightarrow> pystr \<Rightarrow> pystr \<Rightarrow> pystr \<Rightarrow> insert_report \<times> job_table" where
  "wellfound_insert = scraper_insert (str ''Wellfound Scraper'')"

section \<open>The page cleaners\<close>









section \<open>The scroll loops\<close>

text \<open>
  The browser during a scroll loop. \<open>heights i\<close> is what the \<open>i\<close>-th evaluation of
  \<open>document.body.scrollHeight\<close> returns. The state of a loop counts what it did:
  \<open>reads\<close> evaluations of the height, \<open>attempts\<close> passes through the loop body,
  \<open>confirmations\<close> extra scrolls after an unchanged height, \<open>clicks\<close> clicks on
  "Show more"; \<open>converged\<close> says that the loop was left by \<open>break\<close>.
\<close>

record loader =
  reads :: nat
  attempts :: nat
  confirmations :: nat
  clicks :: nat
  last_height :: nat
  converged :: bool




definition YC_MAX_SCROLLS :: nat where
  "YC_MAX_SCROLLS = 15"



definition WELLFOUND_MAX_SCROLLS :: nat where
  "WELLFOUND_MAX_SCROLLS = 20"

text \<open>Scrolls of the window: one per attempt and one per confirmation.\<close>

definition scrolls :: "loader \<Rightarrow> nat" where
  "scrolls st = attempts st + confirmations st"


section \<open>Link discovery\<close>

text \<open>\<open>url.split('?')[0]\<close>: the URL up to its first question mark.\<close>

definition strip_query :: "pystr \<Rightarrow> pystr" where
  "strip_query url = takeWhile (\<lambda>c. c \<noteq> 63) url"

text \<open>
  \<open>re.search(r"\d", url)\<close>: some character of the URL is a decimal digit. Which
  characters \<open>\d\<close> matches is a table of the Python runtime (the decimal digits of
  Unicode), the parameter \<open>digit\<close>; the digits of ASCII are among them.
\<close>

definition has_digit :: "(int \<Rightarrow> bool) \<Rightarrow> pystr \<Rightarrow> bool" where
  "has_digit digit url = list_ex digit url"

definition ascii_digit :: "int \<Rightarrow> bool" where
  "ascii_digit c = (48 \<le> c \<and> c \<le> 57)"

text \<open>
  An anchor of the parsed page: its \<open>href\<close> attribute and the text
  \<open>get_text(strip=True)\<close> returns for it.
\<close>

record anchor =
  href :: pystr
  link_text :: pystr

definition target_roles :: "pystr list" where
  "target_roles = map str
     [''engineer'', ''developer'', ''backend'', ''frontend'', ''full stack'', ''python'', ''ai'',
      ''machine learning'', ''data'']"

definition exclude_roles :: "pystr list" where
  "exclude_roles = map str
     [''sales'', ''marketing'', ''account executive'', ''recruiter'', ''design'', ''operations'',
      ''customer'']"

text \<open>The link loop of \<open>scrape_yc\<close>; each \<open>continue\<close> goes on with the rest.\<close>

fun yc_link_loop :: "(pystr \<Rightarrow> pystr) \<Rightarrow> (int \<Rightarrow> bool) \<Rightarrow> anchor list \<Rightarrow> pystr set \<Rightarrow> (pystr \<times> pystr) list \<Rightarrow> (pystr \<times> pystr) list" where
  "yc_link_loop lower digit [] seen_urls job_links = job_links"
| "yc_link_loop lower digit (link # rest) seen_urls job_links =
     (if href link = [] then yc_link_loop lower digit rest seen_urls job_links
      else
        (let full_url = (if prefix (str ''http'') (href link) then href link
                         else str ''https://www.workatastartup.com'' @ href link)
         in if \<not> py_in (str ''/jobs/'') full_url \<or> \<not> has_digit digit full_url
            then yc_link_loop lower digit rest seen_urls job_links
            else
              (let full_url = strip_query full_url
               in if full_url \<in> seen_urls then yc_link_loop lower digit rest seen_urls job_links
                  else
                    (let title = link_text link
                     in if title = [] then yc_link_loop lower digit rest seen_urls job_links
                        else
                          (let title_lower = lower title
                           in if list_ex (\<lambda>excluded. py_in excluded title_lower) exclude_roles
                              then yc_link_loop lower digit rest seen_urls job_links
                              else if \<not> list_ex (\<lambda>target. py_in target title_lower) target_roles
                              then yc_link_loop lower digit rest seen_urls job_links
                              else yc_link_loop lower digit rest (insert full_url seen_urls)
                                     (job_links @ [(title, full_url)]))))))"

definition yc_job_links :: "(pystr \<Rightarrow> pystr) \<Rightarrow> (int \<Rightarrow> bool) \<Rightarrow> anchor list \<Rightarrow> (pystr \<times> pystr) list" where
  "yc_job_links lower digit anchors = yc_link_loop lower digit anchors {} []"

text \<open>The link loop of \<open>scrape_wellfound\<close>.\<close>

fun wellfound_link_loop ::
  "(pystr \<Rightarrow> pystr) \<Rightarrow> anchor list \<Rightarrow> pystr set \<Rightarrow> (pystr \<times> pystr) list \<Rightarrow> (pystr \<times> pystr) list" where
  "wellfound_link_loop lower [] processed_urls job_links = job_links"
| "wellfound_link_loop lower (link # rest) processed_urls job_links =
     (if \<not> py_in (str ''/jobs/'') (href link)
      then wellfound_link_loop lower rest processed_urls job_links
      else
        (let full_url = (if prefix (str ''http'') (href link) then href link
                         else str ''https://wellfound.com'' @ href link);
             full_url = strip_query full_url
         in if full_url \<in> processed_urls then wellfound_link_loop lower rest processed_urls job_links
            else
              (let title = link_text link
               in if title = [] then wellfound_link_loop lower rest processed_urls job_links
                  else
                    (let title_lower = lower title
                     in if \<not> list_ex (\<lambda>role. py_in role title_lower) target_roles
                        then wellfound_link_loop lower rest processed_urls job_links
                        else wellfound_link_loop lower rest (insert full_url processed_urls)
                               (job_links @ [(title, full_url)])))))"

definition wellfound_job_links :: "(pystr \<Rightarrow> pystr) \<Rightarrow> anchor list \<Rightarrow> (pystr \<times> pystr) list" where
  "wellfound_job_links lower anchors = wellfound_link_loop lower anchors {} []"

text \<open>
  An element Selenium found for job_agent.py: reading it raises (the handler goes on with
  the next one), or it has an \<open>href\<close> attribute (\<open>url\<close> below), which may be
  missing, and a text.
\<close>

datatype web_element = Stale | Element "pystr option" pystr

text \<open>The loop of \<open>RemoteJobScraper._extract_job_links\<close>.\<close>

fun extract_link_loop ::
  "web_element list \<Rightarrow> pystr set \<Rightarrow> (pystr \<times> pystr) list \<Rightarrow> (pystr \<times> pystr) list" where
  "extract_link_loop [] seen_urls valid_links = valid_links"
| "extract_link_loop (Stale # rest) seen_urls valid_links =
     extract_link_loop rest seen_urls valid_links"
| "extract_link_loop (Element None text # rest) seen_urls valid_links =
     extract_link_loop rest seen_urls valid_links"
| "extract_link_loop (Element (Some url) text # rest) seen_urls valid_links =
     (let title = py_strip text
      in if url \<noteq> [] \<and> url \<notin> seen_urls \<and> 5 \<le> count_list url 47
            \<and> \<not> py_in (str ''jobs/all'') url \<and> title \<noteq> []
         then extract_link_loop rest (insert url seen_urls) (valid_links @ [(title, url)])
         else extract_link_loop rest seen_urls valid_links)"

definition extract_job_links :: "web_element list \<Rightarrow> (pystr \<times> pystr) list" where
  "extract_job_links potential_links = extract_link_loop potential_links {} []"

text \<open>
  The invariant of the link loops of the two scrapers: the URLs collected so far are
  distinct, they are all in the set of seen URLs, and none contains a question mark.
\<close>

definition links_ok :: "pystr set \<Rightarrow> (pystr \<times> pystr) list \<Rightarrow> bool" where
  "links_ok seen links \<longleftrightarrow>
     distinct (map snd links) \<and> snd ` set links \<subseteq> seen \<and> (\<forall>u \<in> snd ` set links. 63 \<notin> set u)"




section \<open>Properties of the resume pipeline\<close>

lemma found_loop_eq:
  "found_loop ks rl acc = acc @ map py_title (filter (\<lambda>k. py_in k rl) ks)"
  by (induction ks arbitrary: acc) simp_all

lemma dedupe_loop_distinct_id:
  "distinct (map lower xs) \<Longrightarrow> lower ` set xs \<inter> seen = {} \<Longrightarrow>
   dedupe_loop lower xs seen acc = acc @ xs"
proof (induction xs arbitrary: seen acc)
  case Nil
  then show ?case by simp
next
  case (Cons x xs)
  from Cons.prems have notin: "lower x \<notin> seen" by auto
  from Cons.prems have d: "distinct (map lower xs)" by simp
  from Cons.prems have "lower ` set xs \<inter> insert (lower x) seen = {}" by auto
  from Cons.IH[OF d this] notin show ?case by simp
qed

lemma lower_title_from:
  "\<forall>c\<in>set s. \<not> is_upper c \<Longrightarrow> map lower_char (title_from b s) = s"
proof (induction s arbitrary: b)
  case Nil
  then show ?case by simp
next
  case (Cons c cs)
  then show ?case
    by (auto simp: lower_char_def upper_char_def is_upper_def is_lower_def)
qed

lemma ascii_lower_title: "\<forall>c\<in>set s. \<not> is_upper c \<Longrightarrow> ascii_lower (py_title s) = s"
  by (simp add: ascii_lower_def py_title_def lower_title_from)

lemma title_from_ascii:
  "\<forall>c\<in>set s. 0 \<le> c \<and> c < 128 \<Longrightarrow> \<forall>c\<in>set (title_from b s). 0 \<le> c \<and> c < 128"
  by (induction s arbitrary: b)
    (auto simp: lower_char_def upper_char_def is_upper_def is_lower_def)

lemma str_lower_laws_ascii:
  "str_lower_laws lower \<Longrightarrow> \<forall>c\<in>set s. 0 \<le> c \<and> c < 128 \<Longrightarrow> lower s = ascii_lower s"
  by (simp add: str_lower_laws_def)


lemma example_lower_laws: "str_lower_laws example_lower"
proof -
  have "example_lower s = ascii_lower s" if "\<forall>c \<in> set s. 0 \<le> c \<and> c < 128" for s
    using that by (auto simp: example_lower_def ascii_lower_def)
  moreover have "example_lower s = [] \<longleftrightarrow> s = []" for s
    by (simp add: example_lower_def)
  ultimately show ?thesis by (simp add: str_lower_laws_def)
qed

lemma common_tech_distinct: "distinct common_tech"
  by code_simp

lemma common_tech_lowercase: "list_all (\<lambda>k. list_all (\<lambda>c. \<not> is_upper c) k) common_tech"
  by code_simp

lemma common_tech_ascii: "list_all (\<lambda>k. list_all (\<lambda>c. 0 \<le> c \<and> c < 128) k) common_tech"
  by code_simp

lemma common_tech_lower_title:
  assumes "str_lower_laws lower" and "k \<in> set common_tech"
  shows "lower (py_title k) = k"
proof -
  from assms(2) common_tech_lowercase have low: "\<forall>c\<in>set k. \<not> is_upper c"
    by (auto simp: list_all_iff)
  from assms(2) common_tech_ascii have "\<forall>c\<in>set k. 0 \<le> c \<and> c < 128"
    by (auto simp: list_all_iff)
  then have "\<forall>c\<in>set (py_title k). 0 \<le> c \<and> c < 128"
    unfolding py_title_def by (rule title_from_ascii)
  with assms(1) have "lower (py_title k) = ascii_lower (py_title k)"
    by (rule str_lower_laws_ascii)
  with low show ?thesis by (simp add: ascii_lower_title)
qed

lemma lower_title_filter:
  assumes "str_lower_laws lower"
  shows "map lower (map py_title (filter P common_tech)) = filter P common_tech"
proof -
  have "map (\<lambda>k. lower (py_title k)) (filter P common_tech) = map (\<lambda>k. k) (filter P common_tech)"
    by (rule map_cong) (auto simp: common_tech_lower_title[OF assms])
  then show ?thesis by (simp add: comp_def)
qed

lemma extract_skills_fallback_eq:
  assumes "str_lower_laws lower"
  shows "extract_skills_fallback lower text =
     map py_title (filter (\<lambda>k. py_in k (lower text)) common_tech)"
proof -
  let ?found = "map py_title (filter (\<lambda>k. py_in k (lower text)) common_tech)"
  have "distinct (map lower ?found)"
    by (simp only: lower_title_filter[OF assms]) (simp add: common_tech_distinct)
  then have "dedupe_loop lower ?found {} [] = [] @ ?found"
    by (rule dedupe_loop_distinct_id) simp
  then show ?thesis
    by (simp add: extract_skills_fallback_def found_loop_eq)
qed

lemma extract_skills_fallback_distinct_lower:
  assumes "str_lower_laws lower"
  shows "distinct (map lower (extract_skills_fallback lower text))"
  by (simp only: extract_skills_fallback_eq[OF assms] lower_title_filter[OF assms])
    (simp add: common_tech_distinct)

lemma common_tech_titles:
  "map py_title common_tech = map str
     [''Python'', ''Java'', ''C++'', ''Go'', ''Golang'', ''Rust'', ''Javascript'', ''Typescript'',
      ''Node.Js'', ''C#'', ''Ruby'', ''Php'', ''Swift'', ''Kotlin'', ''Scala'',
      ''Data Structures'', ''Algorithms'', ''Big O'', ''Dynamic Programming'',
      ''Django'', ''Flask'', ''Fastapi'', ''Spring Boot'', ''Express.Js'', ''Nest.Js'',
      ''React'', ''Vue'', ''Angular'', ''Svelte'', ''Next.Js'', ''Nuxt.Js'',
      ''Rest Api'', ''Graphql'', ''Grpc'', ''Websockets'',
      ''Postgresql'', ''Mysql'', ''Mongodb'', ''Redis'', ''Cassandra'', ''Dynamodb'',
      ''Elasticsearch'', ''Neo4J'', ''Sqlite'',
      ''Aws'', ''Gcp'', ''Azure'', ''Ec2'', ''Lambda'', ''S3'', ''Kubernetes'', ''Docker'',
      ''Git'', ''Jenkins'', ''Gitlab Ci'', ''Github Actions'', ''Terraform'', ''Ansible'',
      ''Pytest'', ''Jest'', ''Selenium'', ''Cypress'', ''Postman'',
      ''Machine Learning'', ''Deep Learning'', ''Tensorflow'', ''Pytorch'', ''Scikit-Learn'',
      ''Nlp'', ''Computer Vision'', ''Langchain'', ''Huggingface'',
      ''Kafka'', ''Airflow'', ''Spark'', ''Hadoop'', ''Etl'',
      ''Linux'', ''Bash'', ''Agile'', ''Scrum'', ''Oauth'', ''Jwt'', ''Microservices'']"
  by code_simp

lemma count_list_distinct: "distinct xs \<Longrightarrow> x \<in> set xs \<Longrightarrow> count_list xs x = 1"
  by (induction xs) (auto simp: count_list_0_iff)

text \<open>
  Claim C4. For every lower-casing \<open>lower\<close> with the two properties of \<open>str.lower\<close>:
  when a keyword \<open>k\<close> of the taxonomy occurs in the lower-cased text, the fallback
  extractor's output contains the title-cased \<open>k\<close> exactly once, and the output is the
  title-cased keywords that occur, in the order of the taxonomy. The title-cased
  keywords are the strings \<open>str.title\<close> gives, listed in full.
\<close>

theorem fallback_keyword_once:
  assumes "str_lower_laws lower" and "k \<in> set common_tech" and "py_in k (lower resume_text)"
  shows "count_list (extract_skills_fallback lower resume_text) (py_title k) = 1
         \<and> extract_skills_fallback lower resume_text =
             map py_title (filter (\<lambda>k. py_in k (lower resume_text)) common_tech)
         \<and> map py_title common_tech = map str
             [''Python'', ''Java'', ''C++'', ''Go'', ''Golang'', ''Rust'', ''Javascript'',
              ''Typescript'', ''Node.Js'', ''C#'', ''Ruby'', ''Php'', ''Swift'', ''Kotlin'',
              ''Scala'', ''Data Structures'', ''Algorithms'', ''Big O'',
              ''Dynamic Programming'', ''Django'', ''Flask'', ''Fastapi'', ''Spring Boot'',
              ''Express.Js'', ''Nest.Js'', ''React'', ''Vue'', ''Angular'', ''Svelte'',
              ''Next.Js'', ''Nuxt.Js'', ''Rest Api'', ''Graphql'', ''Grpc'', ''Websockets'',
              ''Postgresql'', ''Mysql'', ''Mongodb'', ''Redis'', ''Cassandra'', ''Dynamodb'',
              ''Elasticsearch'', ''Neo4J'', ''Sqlite'', ''Aws'', ''Gcp'', ''Azure'', ''Ec2'',
              ''Lambda'', ''S3'', ''Kubernetes'', ''Docker'', ''Git'', ''Jenkins'',
              ''Gitlab Ci'', ''Github Actions'', ''Terraform'', ''Ansible'', ''Pytest'',
              ''Jest'', ''Selenium'', ''Cypress'', ''Postman'', ''Machine Learning'',
              ''Deep Learning'', ''Tensorflow'', ''Pytorch'', ''Scikit-Learn'', ''Nlp'',
              ''Computer Vision'', ''Langchain'', ''Huggingface'', ''Kafka'', ''Airflow'',
              ''Spark'', ''Hadoop'', ''Etl'', ''Linux'', ''Bash'', ''Agile'', ''Scrum'',
              ''Oauth'', ''Jwt'', ''Microservices'']"
proof -
  have d: "distinct (extract_skills_fallback lower resume_text)"
    using extract_skills_fallback_distinct_lower[OF assms(1)] by (simp add: distinct_map)
  have "py_title k \<in> set (extract_skills_fallback lower resume_text)"
    using assms(2,3) by (simp add: extract_skills_fallback_eq[OF assms(1)])
  with d have "count_list (extract_skills_fallback lower resume_text) (py_title k) = 1"
    by (rule count_list_distinct)
  with extract_skills_fallback_eq[OF assms(1), of resume_text] common_tech_titles
  show ?thesis by blast
qed




lemma extract_skills_with_ollama_Unreachable:
  "extract_skills_with_ollama lower t Unreachable = []"
  by (simp add: extract_skills_with_ollama_def ollama_try_def)


text \<open>
  Claim C8, as the code has it. A decoded text shorter than 100 characters is rejected
  before any extractor is called: with the "Resume text too short" message when it is not
  empty, with the "Failed to extract text from PDF" message when it is empty. A decoded
  text of 100 characters or more is not rejected by either check and reaches an
  extractor: the inference extractor first when \<open>use_ollama\<close> is set, the fallback
  extractor otherwise.
\<close>

theorem parse_resume_short:
  "(length (extract_text_from_pdf pdf) < 100 \<longrightarrow>
      parse_resume lower pdf use_ollama backend =
        ((False, [], if extract_text_from_pdf pdf = [] then FailedToExtractText
                     else ResumeTextTooShort), []))
   \<and> (100 \<le> length (extract_text_from_pdf pdf) \<longrightarrow>
      hd (snd (parse_resume lower pdf use_ollama backend)) =
        (if use_ollama then CallOllama else CallFallback)
      \<and> snd (parse_resume lower pdf use_ollama backend) \<noteq> []
      \<and> snd (snd (fst (parse_resume lower pdf use_ollama backend)))
            \<notin> {FailedToExtractText, ResumeTextTooShort})"
  by (auto simp: parse_resume_def Let_def)

text \<open>
  Claim C9. For every resume that passes the length check, when the inference backend
  cannot be reached the pipeline (\<open>use_ollama\<close> set, as the application calls it)
  returns what the fallback extractor finds, with one of the two "Ollama unavailable"
  messages, after calling both extractors. Whatever \<open>use_ollama\<close> is, the skills
  returned are the fallback extractor's and the message is never the AI one.
\<close>

theorem parse_resume_unreachable:
  assumes "100 \<le> length (extract_text_from_pdf pdf)"
  shows "parse_resume lower pdf True Unreachable =
           (let skills = extract_skills_fallback lower (extract_text_from_pdf pdf)
            in ((skills \<noteq> [], skills,
                 if skills \<noteq> [] then OllamaUnavailableFallback (length skills)
                 else OllamaUnavailableNoSkills),
                [CallOllama, CallFallback]))
         \<and> fst (snd (fst (parse_resume lower pdf use_ollama Unreachable))) =
             extract_skills_fallback lower (extract_text_from_pdf pdf)
         \<and> (\<forall>n. snd (snd (fst (parse_resume lower pdf use_ollama Unreachable))) \<noteq> ExtractedUsingAI n)"
  using assms
  by (auto simp: parse_resume_def Let_def extract_skills_with_ollama_Unreachable)


theorem parse_resume_short_witness:
  "length (extract_text_from_pdf (Pages [replicate 99 120])) < 100
   \<and> parse_resume example_lower (Pages [replicate 99 120]) True Unreachable = ((False, [], ResumeTextTooShort), [])
   \<and> 100 \<le> length (extract_text_from_pdf (Pages [replicate 100 120]))
   \<and> hd (snd (parse_resume example_lower (Pages [replicate 100 120]) True Unreachable)) = CallOllama"
proof -
  have a: "length (extract_text_from_pdf (Pages [replicate 99 120])) = 99" by code_simp
  have b: "length (extract_text_from_pdf (Pages [replicate 100 120])) = 100" by code_simp
  from a have ne: "extract_text_from_pdf (Pages [replicate 99 120]) \<noteq> []" by auto
  show ?thesis
    using a b ne parse_resume_short[where lower = example_lower and pdf = "Pages [replicate 99 120]"
        and use_ollama = True and backend = Unreachable]
      parse_resume_short[where lower = example_lower and pdf = "Pages [replicate 100 120]"
        and use_ollama = True and backend = Unreachable]
    by (simp del: extract_text_from_pdf.simps)
qed

text \<open>
  Claim C8 as stated fails on a PDF whose pages carry no text: the decoded text has
  length 0, below 100, and the message is not the "too short" one.
\<close>

theorem parse_resume_short_counterexample:
  "length (extract_text_from_pdf (Pages [[], []])) < 100
   \<and> parse_resume example_lower (Pages [[], []]) True Unreachable = ((False, [], FailedToExtractText), [])
   \<and> FailedToExtractText \<noteq> ResumeTextTooShort"
  by code_simp

theorem parse_resume_unreachable_witness:
  "100 \<le> length (extract_text_from_pdf (Pages [str ''Python and python '' @ replicate 90 120]))
   \<and> parse_resume example_lower (Pages [str ''Python and python '' @ replicate 90 120]) True Unreachable =
       ((True, [str ''Python''], OllamaUnavailableFallback 1), [CallOllama, CallFallback])"
proof -
  let ?pdf = "Pages [str ''Python and python '' @ replicate 90 120]"
  have a: "length (extract_text_from_pdf ?pdf) = 108" by code_simp
  have b: "extract_skills_fallback example_lower (extract_text_from_pdf ?pdf) = [str ''Python'']" by code_simp
  have c: "str ''Python'' \<noteq> []" by (simp add: str_def)
  show ?thesis
    using a b c parse_resume_unreachable[where lower = example_lower and pdf = ?pdf and use_ollama = True]
    by (simp del: extract_text_from_pdf.simps add: Let_def)
qed


theorem fallback_keyword_once_witness:
  "str_lower_laws example_lower
   \<and> str ''kafka'' \<in> set common_tech
   \<and> py_in (str ''kafka'') (example_lower (str ''NODE.JS and '' @ 8490 # str ''AFKA, Kafka''))
   \<and> extract_skills_fallback example_lower (str ''NODE.JS and '' @ 8490 # str ''AFKA, Kafka'') =
       [str ''Node.Js'', str ''Kafka'']
   \<and> py_title (str ''kafka'') = str ''Kafka''
   \<and> count_list (extract_skills_fallback example_lower
          (str ''NODE.JS and '' @ 8490 # str ''AFKA, Kafka'')) (str ''Kafka'') = 1"
proof -
  let ?text = "str ''NODE.JS and '' @ 8490 # str ''AFKA, Kafka''"
  have a: "str ''kafka'' \<in> set common_tech" by code_simp
  have b: "py_in (str ''kafka'') (example_lower ?text)" by code_simp
  have t: "py_title (str ''kafka'') = str ''Kafka''" by code_simp
  have f: "map py_title (filter (\<lambda>k. py_in k (example_lower ?text)) common_tech) =
             [str ''Node.Js'', str ''Kafka'']"
    by code_simp
  note th = fallback_keyword_once[OF example_lower_laws a b]
  from th have "extract_skills_fallback example_lower ?text =
                  map py_title (filter (\<lambda>k. py_in k (example_lower ?text)) common_tech)"
    by blast
  then have v: "extract_skills_fallback example_lower ?text = [str ''Node.Js'', str ''Kafka'']"
    by (simp only: f)
  from th have "count_list (extract_skills_fallback example_lower ?text)
                  (py_title (str ''kafka'')) = 1"
    by blast
  then have c: "count_list (extract_skills_fallback example_lower ?text) (str ''Kafka'') = 1"
    by (simp only: t)
  from example_lower_laws a b v t c show ?thesis by blast
qed

section \<open>Properties of the ingestion store\<close>

lemma db_insert_present:
  "url \<in> set (map job_url tbl) \<Longrightarrow>
   db_insert None tbl (pending_row q url title d) = Inl (DbError 1062)"
  by (simp add: db_insert_def pending_row_def)

lemma db_insert_new:
  "url \<notin> set (map job_url tbl) \<Longrightarrow>
   db_insert None tbl (pending_row q url title d) =
     Inr (tbl @ [(pending_row q url title d)\<lparr>job_id := new_id tbl\<rparr>])"
  by (simp add: db_insert_def pending_row_def)

lemma count_url_absent:
  "url \<notin> set (map job_url tbl) \<Longrightarrow> filter (\<lambda>row. job_url row = url) tbl = []"
  by (induction tbl) auto

lemma count_url_present:
  "distinct (map job_url tbl) \<Longrightarrow> url \<in> set (map job_url tbl) \<Longrightarrow>
   length (filter (\<lambda>row. job_url row = url) tbl) = 1"
proof (induction tbl)
  case Nil
  then show ?case by simp
next
  case (Cons r rs)
  show ?case
  proof (cases "job_url r = url")
    case True
    with Cons.prems(1) have "url \<notin> set (map job_url rs)" by simp
    then have "filter (\<lambda>row. job_url row = url) rs = []" by (rule count_url_absent)
    with True show ?thesis by simp
  next
    case False
    with Cons show ?thesis by auto
  qed
qed

lemma count_url_appended:
  "url \<notin> set (map job_url tbl) \<Longrightarrow> job_url r = url \<Longrightarrow>
   length (filter (\<lambda>row. job_url row = url) (tbl @ [r])) = 1"
  by (simp add: count_url_absent del: set_map)

lemma save_job_to_db_cases:
  "save_job_to_db None tbl s url title d =
     (if url \<in> set (map job_url tbl) then (False, tbl)
      else (True, tbl @ [(pending_row None url title d)\<lparr>job_id := new_id tbl\<rparr>]))"
  by (simp add: save_job_to_db_def db_insert_present db_insert_new del: set_map)

lemma scraper_insert_cases:
  "scraper_insert src None tbl url title d =
     (if url \<in> set (map job_url tbl) then (DuplicateSkipping, tbl)
      else (SuccessfullySaved, tbl @ [(pending_row (Some src) url title d)\<lparr>job_id := new_id tbl\<rparr>]))"
  by (simp add: scraper_insert_def db_insert_present db_insert_new del: set_map)

lemma job_url_pending: "job_url ((pending_row q url title d)\<lparr>job_id := i\<rparr>) = url"
  by (simp add: pending_row_def)

text \<open>
  Claim C2, as the code has it. On a table with unique URLs and with no server fault,
  two inserts of the same URL leave exactly one row for it and the second changes
  nothing. \<open>_save_job_to_db\<close> returns \<open>True\<close> for the first call when the URL is new and
  \<open>False\<close> for the second, the value it returns for every database error; the insert
  block of the two scrapers reports "Duplicate entry - skipping" for the second.
\<close>

theorem insert_same_url_twice:
  assumes "distinct (map job_url tbl)"
  shows "(let (r1, t1) = save_job_to_db None tbl s url title1 d1;
              (r2, t2) = save_job_to_db None t1 s url title2 d2
          in length (filter (\<lambda>row. job_url row = url) t2) = 1
             \<and> r1 = (url \<notin> set (map job_url tbl)) \<and> r2 = False \<and> t2 = t1)
         \<and> (let (m1, t1) = scraper_insert src None tbl url title1 d1;
                 (m2, t2) = scraper_insert src None t1 url title2 d2
             in length (filter (\<lambda>row. job_url row = url) t2) = 1
                \<and> m1 = (if url \<in> set (map job_url tbl) then DuplicateSkipping
                         else SuccessfullySaved)
                \<and> m2 = DuplicateSkipping \<and> t2 = t1)"
proof (cases "url \<in> set (map job_url tbl)")
  case True
  with assms have "length (filter (\<lambda>row. job_url row = url) tbl) = 1"
    by (intro count_url_present)
  with True show ?thesis
    by (simp add: save_job_to_db_cases scraper_insert_cases del: set_map)
next
  case False
  let ?r = "\<lambda>q title d. (pending_row q url title d)\<lparr>job_id := new_id tbl\<rparr>"
  have m: "url \<in> set (map job_url (tbl @ [?r q title d]))" for q title d
    by (simp add: job_url_pending)
  have c: "length (filter (\<lambda>row. job_url row = url) (tbl @ [?r q title d])) = 1" for q title d
    by (rule count_url_appended[OF False job_url_pending])
  from False show ?thesis
    by (simp only: save_job_to_db_cases scraper_insert_cases m c if_True if_False
        Let_def prod.case simp_thms not_False_eq_True)
qed

theorem insert_same_url_twice_witness:
  "distinct (map job_url ([] :: job_table))
   \<and> (let (r1, t1) = save_job_to_db None [] (str ''dev'') (str ''https://remote.com/jobs/a/b-1'')
                        (str ''T'') (str ''D'');
           (r2, t2) = save_job_to_db None t1 (str ''dev'') (str ''https://remote.com/jobs/a/b-1'')
                        (str ''T'') (str ''D'')
       in r1 \<and> \<not> r2
          \<and> length (filter (\<lambda>row. job_url row = str ''https://remote.com/jobs/a/b-1'') t2) = 1)"
proof -
  have h: "distinct (map job_url ([] :: job_table))" by simp
  show ?thesis
    using insert_same_url_twice[OF h, THEN conjunct1, of "str ''dev''"
        "str ''https://remote.com/jobs/a/b-1''" "str ''T''" "str ''D''" "str ''T''" "str ''D''"]
    by (auto simp: case_prod_beta Let_def)
qed

text \<open>
  Claim C2 as stated fails for \<open>_save_job_to_db\<close>: of two inserts of one URL into the
  empty table, the second returns \<open>False\<close>.
\<close>

theorem insert_same_url_twice_counterexample:
  "\<not> (fst (save_job_to_db None [] (str ''dev'') (str ''u'') (str ''T'') (str ''D''))
      \<and> fst (save_job_to_db None
             (snd (save_job_to_db None [] (str ''dev'') (str ''u'') (str ''T'') (str ''D'')))
             (str ''dev'') (str ''u'') (str ''T'') (str ''D'')))"
  by (simp add: save_job_to_db_cases job_url_pending)

section \<open>Properties of the job extractor\<close>

lemma update_job_not_dict:
  "llm (raw_description job) \<in> {Unreachable, Malformed} \<Longrightarrow>
   update_job llm faults job tbl = Inl AttributeError"
  by (auto simp: update_job_def extract_data_def)








text \<open>
  When \<open>extract_data\<close> returns \<open>None\<close>, \<open>main\<close> still runs the \<open>try\<close> block, and
  \<open>structured_data.get\<close> raises an \<open>AttributeError\<close> that no handler catches.
\<close>

lemma main_backend_unreachable_raises:
  "main (\<lambda>raw_text. Unreachable) (\<lambda>i. None)
     [pending_row None (str ''https://remote.com/jobs/acme/dev-1'') (str ''Developer'')
        (str ''python developer'')] =
   ([pending_row None (str ''https://remote.com/jobs/acme/dev-1'') (str ''Developer'')
        (str ''python developer'')], Some AttributeError)"
  by (simp add: main_def pending_row_def update_job_def extract_data_def)





lemma first_occurrences_subset: "set (first_occurrences lower xs) \<subseteq> set xs"
  by (induction xs) auto



lemma first_occurrences_distinct: "distinct (map lower (first_occurrences lower xs))"
  by (induction xs) (auto simp: distinct_map_filter)





section \<open>Properties of the scroll loops\<close>


















section \<open>Properties of link discovery\<close>

lemma strip_query_no_mark: "63 \<notin> set (strip_query url)"
  by (auto simp: strip_query_def dest: set_takeWhileD)

lemma strip_query_id: "63 \<notin> set url \<Longrightarrow> strip_query url = url"
  by (simp add: strip_query_def takeWhile_eq_all_conv) blast

lemma links_ok_add:
  "links_ok seen links \<Longrightarrow> u \<notin> seen \<Longrightarrow> 63 \<notin> set u \<Longrightarrow>
   links_ok (insert u seen) (links @ [(t, u)])"
  by (auto simp: links_ok_def)

lemma yc_link_loop_ok:
  "links_ok seen links \<Longrightarrow> \<exists>seen'. links_ok seen' (yc_link_loop lower digit anchors seen links)"
proof (induction anchors arbitrary: seen links)
  case Nil
  then show ?case by auto
next
  case (Cons link rest)
  have keep: "\<exists>seen'. links_ok seen' (yc_link_loop lower digit rest seen links)"
    using Cons.IH[OF Cons.prems] .
  have add: "u \<notin> seen \<Longrightarrow> 63 \<notin> set u \<Longrightarrow>
      \<exists>seen'. links_ok seen'
         (yc_link_loop lower digit rest (insert u seen) (links @ [(t, u)]))" for t u
    using Cons.IH[OF links_ok_add[OF Cons.prems]] .
  show ?case
    using keep add[OF _ strip_query_no_mark]
    by (simp add: Let_def)
qed

lemma wellfound_link_loop_ok:
  "links_ok seen links \<Longrightarrow> \<exists>seen'. links_ok seen' (wellfound_link_loop lower anchors seen links)"
proof (induction anchors arbitrary: seen links)
  case Nil
  then show ?case by auto
next
  case (Cons link rest)
  have keep: "\<exists>seen'. links_ok seen' (wellfound_link_loop lower rest seen links)"
    using Cons.IH[OF Cons.prems] .
  have add: "u \<notin> seen \<Longrightarrow> 63 \<notin> set u \<Longrightarrow>
      \<exists>seen'. links_ok seen'
         (wellfound_link_loop lower rest (insert u seen) (links @ [(t, u)]))" for t u
    using Cons.IH[OF links_ok_add[OF Cons.prems]] .
  show ?case
    using keep add[OF _ strip_query_no_mark]
    by (simp add: Let_def)
qed

lemma extract_link_loop_distinct:
  "distinct (map snd links) \<Longrightarrow> snd ` set links \<subseteq> seen \<Longrightarrow>
   distinct (map snd (extract_link_loop elements seen links))"
proof (induction elements seen links rule: extract_link_loop.induct)
  case (4 url label rest seen_urls valid_links)
  show ?case
  proof (cases "url \<noteq> [] \<and> url \<notin> seen_urls \<and> 5 \<le> count_list url 47
            \<and> \<not> py_in (str ''jobs/all'') url \<and> py_strip label \<noteq> []")
    case True
    with "4.prems" have "distinct (map snd (valid_links @ [(py_strip label, url)]))"
      and "snd ` set (valid_links @ [(py_strip label, url)]) \<subseteq> insert url seen_urls"
      by auto
    with "4.IH"(1)[OF refl True] True show ?thesis by (simp add: Let_def)
  next
    case False
    with "4.IH"(2)[OF refl False "4.prems"] show ?thesis by (auto simp: Let_def)
  qed
qed simp_all

lemma links_ok_stripped:
  assumes "links_ok seen links"
  shows "distinct (map (strip_query \<circ> snd) links)" and "\<forall>(t, u) \<in> set links. strip_query u = u"
proof -
  from assms have id: "strip_query (snd p) = snd p" if "p \<in> set links" for p
    using that by (auto simp: links_ok_def intro: strip_query_id)
  then have m: "map (strip_query \<circ> snd) links = map snd links" by simp
  from assms show "distinct (map (strip_query \<circ> snd) links)"
    unfolding m by (simp add: links_ok_def)
  from id show "\<forall>(t, u) \<in> set links. strip_query u = u" by auto
qed

lemma links_ok_empty: "links_ok {} []"
  by (simp add: links_ok_def)

text \<open>
  Claim C7, as the code has it. The links \<open>scrape_yc\<close> and \<open>scrape_wellfound\<close> return
  carry URLs without a query string, and no two of them share a query-stripped URL. The
  links \<open>_extract_job_links\<close> of job_agent.py returns are distinct as the \<open>href\<close>
  values the browser reports, query string included.
\<close>

theorem job_links_deduplicated:
  "distinct (map (strip_query \<circ> snd) (yc_job_links lower digit anchors))
   \<and> (\<forall>(title, url) \<in> set (yc_job_links lower digit anchors). strip_query url = url)
   \<and> distinct (map (strip_query \<circ> snd) (wellfound_job_links lower anchors))
   \<and> (\<forall>(title, url) \<in> set (wellfound_job_links lower anchors). strip_query url = url)
   \<and> distinct (map snd (extract_job_links potential_links))"
proof -
  from yc_link_loop_ok[OF links_ok_empty, where anchors = anchors and lower = lower
      and digit = digit]
  obtain s1 where y: "links_ok s1 (yc_job_links lower digit anchors)"
    by (auto simp: yc_job_links_def)
  from wellfound_link_loop_ok[OF links_ok_empty, where anchors = anchors and lower = lower]
  obtain s2 where w: "links_ok s2 (wellfound_job_links lower anchors)"
    by (auto simp: wellfound_job_links_def)
  have e: "distinct (map snd (extract_job_links potential_links))"
    unfolding extract_job_links_def by (rule extract_link_loop_distinct) simp_all
  from links_ok_stripped[OF y] links_ok_stripped[OF w] e show ?thesis by blast
qed

text \<open>
  Claim C7 as stated fails for job_agent.py: two links that differ in the query string
  only are both returned.
\<close>

theorem job_links_deduplicated_counterexample:
  "extract_job_links
     [Element (Some (str ''https://remote.com/jobs/acme/dev-1?ref=a'')) (str ''Developer''),
      Element (Some (str ''https://remote.com/jobs/acme/dev-1?ref=b'')) (str ''Developer'')] =
     [(str ''Developer'', str ''https://remote.com/jobs/acme/dev-1?ref=a''),
      (str ''Developer'', str ''https://remote.com/jobs/acme/dev-1?ref=b'')]
   \<and> strip_query (str ''https://remote.com/jobs/acme/dev-1?ref=a'') =
       strip_query (str ''https://remote.com/jobs/acme/dev-1?ref=b'')"
  by code_simp

theorem job_links_deduplicated_witness:
  "yc_job_links example_lower ascii_digit
     [\<lparr>href = str ''/jobs/123?utm=a'', link_text = str ''Backend Engineer''\<rparr>,
      \<lparr>href = str ''/jobs/123?utm=b'', link_text = str ''Backend Engineer''\<rparr>,
      \<lparr>href = str ''/jobs/77'', link_text = str ''Sales Engineer''\<rparr>] =
     [(str ''Backend Engineer'', str ''https://www.workatastartup.com/jobs/123'')]
   \<and> strip_query (str ''https://www.workatastartup.com/jobs/123'') =
       str ''https://www.workatastartup.com/jobs/123''
   \<and> distinct (map (strip_query \<circ> snd) (yc_job_links example_lower ascii_digit
          [\<lparr>href = str ''/jobs/123?utm=a'', link_text = str ''Backend Engineer''\<rparr>,
           \<lparr>href = str ''/jobs/123?utm=b'', link_text = str ''Backend Engineer''\<rparr>,
           \<lparr>href = str ''/jobs/77'', link_text = str ''Sales Engineer''\<rparr>]))"
proof -
  let ?as = "[\<lparr>href = str ''/jobs/123?utm=a'', link_text = str ''Backend Engineer''\<rparr>,
      \<lparr>href = str ''/jobs/123?utm=b'', link_text = str ''Backend Engineer''\<rparr>,
      \<lparr>href = str ''/jobs/77'', link_text = str ''Sales Engineer''\<rparr>]"
  have v: "yc_job_links example_lower ascii_digit ?as =
     [(str ''Backend Engineer'', str ''https://www.workatastartup.com/jobs/123'')]"
    by code_simp
  note th = job_links_deduplicated[where lower = example_lower and digit = ascii_digit
      and anchors = ?as]
  from th
  have all: "\<forall>(title, url) \<in> set (yc_job_links example_lower ascii_digit ?as).
               strip_query url = url"
    by blast
  have "(str ''Backend Engineer'', str ''https://www.workatastartup.com/jobs/123'')
          \<in> set (yc_job_links example_lower ascii_digit ?as)"
    unfolding v by simp
  with all have s: "strip_query (str ''https://www.workatastartup.com/jobs/123'') =
       str ''https://www.workatastartup.com/jobs/123''" by blast
  from th
  have d: "distinct (map (strip_query \<circ> snd) (yc_job_links example_lower ascii_digit ?as))"
    by blast
  from v s d show ?thesis by blast
qed

section \<open>Properties of the page cleaners\<close>









































end
